theory Spec2Isabelle
  imports Complex_Main "HOL-Library.Word"
begin

section \<open>Camera intrinsics and point features of AliceVision\<close>

text \<open>
  A shallow embedding of \<^verbatim>\<open>aliceVision/camera/IntrinsicBase.hpp\<close> and of the feature
  file reader of \<^verbatim>\<open>aliceVision/feature/PointFeature.hpp\<close>.

  Conventions of the embedding:
  \<^item> a C++ \<^verbatim>\<open>double\<close> or \<^verbatim>\<open>float\<close> is a \<^typ>\<open>real\<close>: rounding, infinities and NaN are
    not modelled, so every statement below is about the exact arithmetic the code
    approximates;
  \<^item> \<^verbatim>\<open>unsigned int\<close> is a 32-bit word, \<^verbatim>\<open>std::size_t\<close> a 64-bit word;
  \<^item> an Eigen fixed-size vector is a tuple of its coefficients, a matrix with a dynamic
    number of columns (\<^verbatim>\<open>Mat2X\<close>, \<^verbatim>\<open>Mat3X\<close>) is the list of its columns;
  \<^item> a virtual member function is a field of the record that stands for the object: the
    field holds what the call dispatches to;
  \<^item> an exception, a failed \<^verbatim>\<open>assert\<close> and an early exit are the \<open>Inl\<close> branch of a sum;
  \<^item> \<^verbatim>\<open>assert\<close> is a macro that expands to nothing when the build defines \<^verbatim>\<open>NDEBUG\<close>: a
    function with an assertion takes the flag \<open>NDEBUG\<close> of the build as its first argument.
\<close>

subsection \<open>Vectors\<close>

type_synonym Vec2 = "real \<times> real"
type_synonym Vec3 = "real \<times> real \<times> real"
type_synonym Mat2X = "Vec2 list"
type_synonym Mat3X = "Vec3 list"

text \<open>\<^verbatim>\<open>X.head<2>()\<close>: the first two coefficients.\<close>

fun head2 :: "Vec3 \<Rightarrow> Vec2" where
  "head2 (a, b, c) = (a, b)"

text \<open>\<^verbatim>\<open>X(2)\<close>: the third coefficient.\<close>

fun coeff2 :: "Vec3 \<Rightarrow> real" where
  "coeff2 (a, b, c) = c"

text \<open>\<^verbatim>\<open>v / s\<close>: coefficient-wise division of a vector by a scalar.\<close>

fun vec2_div :: "Vec2 \<Rightarrow> real \<Rightarrow> Vec2" where
  "vec2_div (a, b) s = (a / s, b / s)"

text \<open>\<^verbatim>\<open>u - v\<close> on \<^verbatim>\<open>Vec2\<close>.\<close>

fun vec2_sub :: "Vec2 \<Rightarrow> Vec2 \<Rightarrow> Vec2" where
  "vec2_sub (a, b) (c, d) = (a - c, b - d)"

subsection \<open>The intrinsic base class\<close>

text \<open>
  \<^verbatim>\<open>EINTRINSIC\<close> is an enumeration declared in \<^verbatim>\<open>cameraCommon.hpp\<close>, a header outside the
  files verified here; a value of it is represented by the integer that
  \<^verbatim>\<open>static_cast<int>\<close> gives in \<^verbatim>\<open>hashValue\<close>.

  \<^verbatim>\<open>geometry::Pose3\<close> is declared in \<^verbatim>\<open>Pose3.hpp\<close>, outside them as well. The only member
  \<^verbatim>\<open>project\<close> uses is \<^verbatim>\<open>operator()\<close>, so a pose is taken as that map on 3D points.
\<close>

type_synonym EINTRINSIC = int
type_synonym Pose3 = "Vec3 \<Rightarrow> Vec3"

text \<open>
  The data members \<^verbatim>\<open>_w\<close>, \<^verbatim>\<open>_h\<close>, \<^verbatim>\<open>_initialFocalLengthPix\<close> and \<^verbatim>\<open>_serialNumber\<close>
  (an identifier cannot start with an underscore here, hence the prefix \<open>m\<close>), followed
  by the virtual members the modelled functions call.
\<close>

record IntrinsicBase =
  m_w :: "32 word"
  m_h :: "32 word"
  m_initialFocalLengthPix :: real
  m_serialNumber :: string
  getType :: EINTRINSIC
  getParams :: "real list"
  have_disto :: bool
  cam2ima :: "Vec2 \<Rightarrow> Vec2"
  add_disto :: "Vec2 \<Rightarrow> Vec2"

definition isValid :: "IntrinsicBase \<Rightarrow> bool" where
  "isValid c \<longleftrightarrow> m_w c \<noteq> 0 \<and> m_h c \<noteq> 0"

text \<open>\<^verbatim>\<open>operator==\<close>; \<^verbatim>\<open>std::vector\<close> and \<^verbatim>\<open>std::string\<close> compare by size and elements in order.\<close>

definition operator_eq :: "IntrinsicBase \<Rightarrow> IntrinsicBase \<Rightarrow> bool" where
  "operator_eq c other \<longleftrightarrow>
     m_w c = m_w other \<and>
     m_h c = m_h other \<and>
     m_serialNumber c = m_serialNumber other \<and>
     getType c = getType other \<and>
     getParams c = getParams other"

subsection \<open>Projection and residuals\<close>

definition project :: "IntrinsicBase \<Rightarrow> Pose3 \<Rightarrow> Vec3 \<Rightarrow> bool \<Rightarrow> Vec2" where
  "project c pose pt3D applyDistortion =
     (let X = pose pt3D in
      if applyDistortion \<and> have_disto c
      then cam2ima c (add_disto c (vec2_div (head2 X) (coeff2 X)))
      else cam2ima c (vec2_div (head2 X) (coeff2 X)))"

text \<open>\<^verbatim>\<open>residual\<close> calls \<^verbatim>\<open>project\<close> with the default argument \<^verbatim>\<open>applyDistortion = true\<close>.\<close>

definition residual :: "IntrinsicBase \<Rightarrow> Pose3 \<Rightarrow> Vec3 \<Rightarrow> Vec2 \<Rightarrow> Vec2" where
  "residual c pose X x = (let proj = project c pose X True in vec2_sub x proj)"

text \<open>
  What a call can end with instead of a result: a failed \<^verbatim>\<open>assert\<close>, a read beyond the last
  column of a matrix (undefined behaviour in the source, where nothing checks the index
  once \<^verbatim>\<open>NDEBUG\<close> has switched off the assertions of Eigen as well), a \<^verbatim>\<open>cereal::Exception\<close>,
  or a \<^verbatim>\<open>std::runtime_error\<close> with its message.
\<close>

datatype failure = AssertionFailed | OutOfBounds | cereal_Exception | runtime_error string

text \<open>
  The loop of \<^verbatim>\<open>residuals\<close>: column \<open>i\<close> of the result is overwritten while
  \<open>i < numPts\<close>. The bound \<open>numPts\<close> is the number of columns of \<open>x\<close>, so \<^verbatim>\<open>x.col(i)\<close> and
  \<^verbatim>\<open>residuals.col(i)\<close> are in range; \<^verbatim>\<open>X.col(i)\<close> is in range only if \<open>X\<close> has that many
  columns, and the loop ends with \<open>OutOfBounds\<close> where it has not.
\<close>

function residuals_loop ::
  "IntrinsicBase \<Rightarrow> Pose3 \<Rightarrow> Mat3X \<Rightarrow> Mat2X \<Rightarrow> nat \<Rightarrow> nat \<Rightarrow> Mat2X \<Rightarrow> failure + Mat2X" where
  "residuals_loop c pose X x numPts i res =
     (if i < numPts
      then (if i < length X
            then residuals_loop c pose X x numPts (i + 1)
                   (res[i := residual c pose (X ! i) (x ! i)])
            else Inl OutOfBounds)
      else Inr res)"
  by pat_completeness auto
termination
  by (relation "measure (\<lambda>(c, pose, X, x, numPts, i, res). numPts - i)") auto

declare residuals_loop.simps [simp del]

text \<open>
  \<^verbatim>\<open>residuals\<close>: the \<^verbatim>\<open>assert\<close> on the column counts comes first, and it is there only in a
  build without \<^verbatim>\<open>NDEBUG\<close>; then the result is allocated as a zero matrix of \<open>numPts\<close>
  columns and filled by the loop.
\<close>

definition residuals ::
  "bool \<Rightarrow> IntrinsicBase \<Rightarrow> Pose3 \<Rightarrow> Mat3X \<Rightarrow> Mat2X \<Rightarrow> failure + Mat2X" where
  "residuals NDEBUG c pose X x =
     (if \<not> NDEBUG \<and> length X \<noteq> length x then Inl AssertionFailed
      else let numPts = length x;
               res = replicate numPts (0, 0)
           in residuals_loop c pose X x numPts 0 res)"

subsection \<open>Hashing\<close>

text \<open>
  \<^verbatim>\<open>stl::hash_combine\<close> is a function template of \<^verbatim>\<open>aliceVision/stl/hash.hpp\<close>, a header
  outside the files verified here, and it rests on \<^verbatim>\<open>std::hash\<close>, which the implementation
  defines. It is taken as a parameter: one function for each type at which \<^verbatim>\<open>hashValue\<close>
  instantiates the template, from the seed and the value to the new seed (the C++
  function updates the seed in place).
\<close>

record hash_combine =
  hash_combine_int :: "64 word \<Rightarrow> int \<Rightarrow> 64 word"
  hash_combine_uint :: "64 word \<Rightarrow> 32 word \<Rightarrow> 64 word"
  hash_combine_string :: "64 word \<Rightarrow> string \<Rightarrow> 64 word"
  hash_combine_double :: "64 word \<Rightarrow> real \<Rightarrow> 64 word"

text \<open>The loop of \<^verbatim>\<open>hashValue\<close> over the indices of \<^verbatim>\<open>params\<close>.\<close>

function hashValue_loop :: "hash_combine \<Rightarrow> real list \<Rightarrow> nat \<Rightarrow> 64 word \<Rightarrow> 64 word" where
  "hashValue_loop hc params i seed =
     (if i < length params
      then hashValue_loop hc params (i + 1) (hash_combine_double hc seed (params ! i))
      else seed)"
  by pat_completeness auto
termination
  by (relation "measure (\<lambda>(hc, params, i, seed). length params - i)") auto

declare hashValue_loop.simps [simp del]

definition hashValue :: "hash_combine \<Rightarrow> IntrinsicBase \<Rightarrow> 64 word" where
  "hashValue hc c =
     (let seed = 0;
          seed = hash_combine_int hc seed (getType c);
          seed = hash_combine_uint hc seed (m_w c);
          seed = hash_combine_uint hc seed (m_h c);
          seed = hash_combine_string hc seed (m_serialNumber c);
          params = getParams c
      in hashValue_loop hc params 0 seed)"

subsection \<open>Serialization in\<close>

text \<open>
  cereal is a third-party library. Its input archive is modelled as the named values it
  holds, the way cereal's JSON and XML archives look a value up by the name of the
  name-value pair: \<^verbatim>\<open>ar(cereal::make_nvp(name, x))\<close> stores in \<open>x\<close> the value found under
  \<open>name\<close>, and throws \<^verbatim>\<open>cereal::Exception\<close> when the archive has no value of that name
  and of the type of \<open>x\<close>.
\<close>

datatype nvp_value = UIntValue "32 word" | StringValue string | DoubleValue real

type_synonym archive = "string \<Rightarrow> nvp_value option"

definition ar_uint :: "archive \<Rightarrow> string \<Rightarrow> failure + 32 word" where
  "ar_uint ar name =
     (case ar name of Some (UIntValue v) \<Rightarrow> Inr v | _ \<Rightarrow> Inl cereal_Exception)"

definition ar_string :: "archive \<Rightarrow> string \<Rightarrow> failure + string" where
  "ar_string ar name =
     (case ar name of Some (StringValue v) \<Rightarrow> Inr v | _ \<Rightarrow> Inl cereal_Exception)"

definition ar_double :: "archive \<Rightarrow> string \<Rightarrow> failure + real" where
  "ar_double ar name =
     (case ar name of Some (DoubleValue v) \<Rightarrow> Inr v | _ \<Rightarrow> Inl cereal_Exception)"

text \<open>
  \<^verbatim>\<open>load\<close>: an exception of the first two reads leaves the function; one of the last two
  is caught and the member is given its default.
\<close>

definition load :: "archive \<Rightarrow> IntrinsicBase \<Rightarrow> failure + IntrinsicBase" where
  "load ar c =
     (case ar_uint ar ''width'' of
        Inl e \<Rightarrow> Inl e
      | Inr wv \<Rightarrow>
         (let c = c\<lparr>m_w := wv\<rparr> in
          case ar_uint ar ''height'' of
            Inl e \<Rightarrow> Inl e
          | Inr hv \<Rightarrow>
             (let c = c\<lparr>m_h := hv\<rparr>;
                  c = (case ar_string ar ''serialNumber'' of
                         Inr sv \<Rightarrow> c\<lparr>m_serialNumber := sv\<rparr>
                       | Inl e \<Rightarrow> c\<lparr>m_serialNumber := []\<rparr>);
                  c = (case ar_double ar ''initialFocalLengthPix'' of
                         Inr fv \<Rightarrow> c\<lparr>m_initialFocalLengthPix := fv\<rparr>
                       | Inl e \<Rightarrow> c\<lparr>m_initialFocalLengthPix := - 1\<rparr>)
              in Inr c)))"

subsection \<open>The angle between two rays\<close>

text \<open>\<^verbatim>\<open>v.norm()\<close>, \<^verbatim>\<open>u.dot(v)\<close> and the unary minus of Eigen on \<^verbatim>\<open>Vec3\<close>.\<close>

fun norm3 :: "Vec3 \<Rightarrow> real" where
  "norm3 (a, b, c) = sqrt (a * a + b * b + c * c)"

fun dot3 :: "Vec3 \<Rightarrow> Vec3 \<Rightarrow> real" where
  "dot3 (a, b, c) (a', b', c') = a * a' + b * b' + c * c'"

fun vec3_neg :: "Vec3 \<Rightarrow> Vec3" where
  "vec3_neg (a, b, c) = (- a, - b, - c)"

text \<open>
  Modelled from the spec: \<^verbatim>\<open>clamp\<close> and \<^verbatim>\<open>radianToDegree\<close> are functions of
  \<^verbatim>\<open>aliceVision/numeric/numeric.hpp\<close>, a header missing from the files verified here. The
  specification has the cosine "clamped to" the interval between the two bounds, and the
  angle "converted to degrees".
\<close>

definition clamp :: "real \<Rightarrow> real \<Rightarrow> real \<Rightarrow> real" where
  "clamp val lo hi = max lo (min val hi)"

definition radianToDegree :: "real \<Rightarrow> real" where
  "radianToDegree radian = radian / pi * 180"

definition AngleBetweenRays :: "Vec3 \<Rightarrow> Vec3 \<Rightarrow> real" where
  "AngleBetweenRays ray1 ray2 =
     (let mag = norm3 ray1 * norm3 ray2;
          dotAngle = dot3 ray1 ray2
      in radianToDegree (arccos (clamp (dotAngle / mag) (- 1 + 1 / 10 ^ 8) (1 - 1 / 10 ^ 8))))"

text \<open>
  The exact arithmetic of this definition stands for the double arithmetic of the source
  only up to rounding, and only while no intermediate result leaves the range of a
  \<^verbatim>\<open>double\<close>. \<^verbatim>\<open>norm()\<close> takes the root of the squared norm: for a ray such as \<open>(1e200, 0, 0)\<close>
  the squared norm is infinite in the source, the quotient is not a number, and what the
  source returns depends on what \<^verbatim>\<open>clamp\<close> does with it; for \<open>(1e-200, 0, 0)\<close> the squared
  norm is zero and the same happens. The rays whose squared norm stays well inside the
  range are those of the following predicate; a statement about the value of
  \<^verbatim>\<open>AngleBetweenRays\<close> is made for them only.
\<close>

definition squared_norm_in_range :: "Vec3 \<Rightarrow> bool" where
  "squared_norm_in_range r \<longleftrightarrow> 1 / 10 ^ 300 \<le> dot3 r r \<and> dot3 r r \<le> 10 ^ 300"

subsection \<open>Point features and their files\<close>

text \<open>
  \<^verbatim>\<open>PointFeature\<close> holds \<^verbatim>\<open>_coords\<close>; \<^verbatim>\<open>SIOPointFeature\<close> derives from it and adds \<^verbatim>\<open>_scale\<close>
  and \<^verbatim>\<open>_orientation\<close>.
\<close>

record PointFeature =
  m_coords :: Vec2

record SIOPointFeature = PointFeature +
  m_scale :: real
  m_orientation :: real

text \<open>
  An input file stream, as far as the reader can tell: what is left to read, cut into
  the pieces that \<^verbatim>\<open>operator>>\<close> on a \<^verbatim>\<open>float\<close> meets after skipping white space, and the two
  state bits that \<^verbatim>\<open>fail()\<close> and \<^verbatim>\<open>bad()\<close> test. A piece is a number in text form, text
  that is no number, or the place where the device fails to deliver (reading a
  directory, a disk error), which is what sets \<^verbatim>\<open>badbit\<close>.
\<close>

datatype token = Number real | Garbage | ReadError

record ifstream =
  tokens :: "token list"
  failbit :: bool
  badbit :: bool

definition fail :: "ifstream \<Rightarrow> bool" where
  "fail s \<longleftrightarrow> failbit s \<or> badbit s"

definition bad :: "ifstream \<Rightarrow> bool" where
  "bad s \<longleftrightarrow> badbit s"

text \<open>
  A file system gives for a name the content of the file, or nothing when the file
  cannot be opened; a stream just opened has no state bit set.
\<close>

type_synonym filesystem = "string \<Rightarrow> token list option"

definition ifstream_open :: "token list \<Rightarrow> ifstream" where
  "ifstream_open content = \<lparr> tokens = content, failbit = False, badbit = False \<rparr>"

text \<open>
  \<^verbatim>\<open>in >> f\<close> for a \<^verbatim>\<open>float\<close>. On a stream that has failed already nothing is read and
  \<^verbatim>\<open>failbit\<close> is set; at the end of the input and on text that is no number \<^verbatim>\<open>failbit\<close> is
  set; a failure of the device sets \<^verbatim>\<open>badbit\<close>. The value read is returned when there is
  one: \<^verbatim>\<open>std::istream_iterator\<close> hands a value on only if the stream has not failed after
  the extraction.
\<close>

definition read_float :: "ifstream \<Rightarrow> real option \<times> ifstream" where
  "read_float s =
     (if fail s then (None, s\<lparr>failbit := True\<rparr>)
      else case tokens s of
             [] \<Rightarrow> (None, s\<lparr>failbit := True\<rparr>)
           | Number v # rest \<Rightarrow> (Some v, s\<lparr>tokens := rest\<rparr>)
           | Garbage # rest \<Rightarrow> (None, s\<lparr>failbit := True\<rparr>)
           | ReadError # rest \<Rightarrow> (None, s\<lparr>badbit := True\<rparr>))"

text \<open>\<^verbatim>\<open>operator>>\<close> of \<^verbatim>\<open>PointFeature\<close>: \<^verbatim>\<open>in >> obj._coords(0) >> obj._coords(1)\<close>.\<close>

definition read_PointFeature :: "ifstream \<Rightarrow> PointFeature option \<times> ifstream" where
  "read_PointFeature s =
     (let (x, s) = read_float s;
          (y, s) = read_float s
      in (case (x, y) of
            (Some x, Some y) \<Rightarrow> Some \<lparr> m_coords = (x, y) \<rparr>
          | _ \<Rightarrow> None, s))"

text \<open>
  \<^verbatim>\<open>operator>>\<close> of \<^verbatim>\<open>SIOPointFeature\<close>: the base part first, then
  \<^verbatim>\<open>>> obj._scale >> obj._orientation\<close>.
\<close>

definition read_SIOPointFeature :: "ifstream \<Rightarrow> SIOPointFeature option \<times> ifstream" where
  "read_SIOPointFeature s =
     (let (pf, s) = read_PointFeature s;
          (sc, s) = read_float s;
          (ori, s) = read_float s
      in (case (pf, sc, ori) of
            (Some pf, Some sc, Some ori) \<Rightarrow>
              Some \<lparr> m_coords = m_coords pf, m_scale = sc, m_orientation = ori \<rparr>
          | _ \<Rightarrow> None, s))"

text \<open>
  \<^verbatim>\<open>std::copy\<close> from an \<^verbatim>\<open>istream_iterator\<close> to a \<^verbatim>\<open>back_inserter\<close>: extract a value with the
  \<^verbatim>\<open>operator>>\<close> of the value type; append it and go on if the extraction succeeded, stop
  if it did not. The function is generic in the extraction, as the template is in the
  value type; an extraction that succeeds without consuming input would make it run
  forever, which is the value \<open>None\<close>.
\<close>

partial_function (option) copy_istream ::
  "(ifstream \<Rightarrow> 'a option \<times> ifstream) \<Rightarrow> ifstream \<Rightarrow> 'a list \<Rightarrow> ('a list \<times> ifstream) option" where
  "copy_istream extract s vec =
     (case extract s of
        (Some v, s') \<Rightarrow> copy_istream extract s' (vec @ [v])
      | (None, s') \<Rightarrow> Some (vec, s'))"

text \<open>
  What makes the loop of \<^verbatim>\<open>copy_istream\<close> end: an extraction that succeeds takes something
  from the input.
\<close>

definition consumes :: "(ifstream \<Rightarrow> 'a option \<times> ifstream) \<Rightarrow> bool" where
  "consumes extract \<longleftrightarrow>
     (\<forall>s v s'. extract s = (Some v, s') \<longrightarrow> length (tokens s') < length (tokens s))"

text \<open>The messages of the two exceptions of \<^verbatim>\<open>loadFeatsFromFile\<close>.\<close>

definition cant_open_message :: "string \<Rightarrow> string" where
  "cant_open_message sfileNameFeats =
     ''Can't load features file, can't open '' @ [CHR 0x27] @ sfileNameFeats @ [CHR 0x27] @ '' !''"

definition is_incorrect_message :: "string \<Rightarrow> string" where
  "is_incorrect_message sfileNameFeats =
     ''Can't load features file, '' @ [CHR 0x27] @ sfileNameFeats @ [CHR 0x27] @ '' is incorrect !''"

text \<open>
  \<^verbatim>\<open>loadFeatsFromFile\<close> returns nothing and writes to the vector it is given by reference:
  the model returns how the call ended (\<open>Inr ()\<close> for a normal return, \<open>Inl\<close> for the
  exception) together with the vector as the caller finds it afterwards. The closing of
  the stream before the normal return changes neither and is left out.
\<close>

definition loadFeatsFromFile ::
  "(ifstream \<Rightarrow> 'a option \<times> ifstream) \<Rightarrow> filesystem \<Rightarrow> string \<Rightarrow> 'a list
     \<Rightarrow> ((failure + unit) \<times> 'a list) option" where
  "loadFeatsFromFile extract fs sfileNameFeats vec_feat =
     (let vec_feat = [] in
      case fs sfileNameFeats of
        None \<Rightarrow> Some (Inl (runtime_error (cant_open_message sfileNameFeats)), vec_feat)
      | Some content \<Rightarrow>
         (case copy_istream extract (ifstream_open content) vec_feat of
            None \<Rightarrow> None
          | Some (vec_feat, fileIn) \<Rightarrow>
              if bad fileIn
              then Some (Inl (runtime_error (is_incorrect_message sfileNameFeats)), vec_feat)
              else Some (Inr (), vec_feat)))"

subsection \<open>Test data\<close>

text \<open>
  A test camera for the closed instances below: a pinhole model without distortion, focal
  length 1000 pixels, principal point (960, 540), image size 1920 x 1080, and the same
  model with a distortion field that doubles the normalized point.
\<close>

definition pinhole_example :: IntrinsicBase where
  "pinhole_example =
     \<lparr> m_w = 1920, m_h = 1080, m_initialFocalLengthPix = - 1, m_serialNumber = [],
       getType = 1, getParams = [1000, 960, 540], have_disto = False,
       cam2ima = (\<lambda>(u, v). (1000 * u + 960, 1000 * v + 540)),
       add_disto = (\<lambda>p. p) \<rparr>"

definition distorted_example :: IntrinsicBase where
  "distorted_example =
     pinhole_example \<lparr> getType := 2, have_disto := True,
                        add_disto := (\<lambda>(u, v). (2 * u, 2 * v)) \<rparr>"

text \<open>
  A seed update for the closed instances on hashing: multiply the seed by 31 and add a
  number read off the value.
\<close>

definition hash_combine_example :: hash_combine where
  "hash_combine_example =
     \<lparr> hash_combine_int = (\<lambda>seed v. 31 * seed + word_of_int v),
       hash_combine_uint = (\<lambda>seed v. 31 * seed + ucast v),
       hash_combine_string = (\<lambda>seed v. 31 * seed + of_nat (length v)),
       hash_combine_double = (\<lambda>seed v. 31 * seed + word_of_int \<lfloor>v\<rfloor>) \<rparr>"

text \<open>An archive written before the serial number and the initial focal length existed.\<close>

definition legacy_archive :: archive where
  "legacy_archive =
     (\<lambda>name. if name = ''width'' then Some (UIntValue 640)
             else if name = ''height'' then Some (UIntValue 480)
             else None)"

text \<open>
  A file system with three files: two features; one feature and then a failing device;
  one feature and then text that is no number.
\<close>

definition example_fs :: filesystem where
  "example_fs =
     (\<lambda>name. if name = ''two.feat'' then Some [Number 10.5, Number 20.25, Number 30, Number 40]
             else if name = ''broken.feat'' then Some [Number 1, Number 2, ReadError]
             else if name = ''text.feat'' then Some [Number 1, Number 2, Garbage, Number 3]
             else None)"

section \<open>Properties\<close>

subsection \<open>Projection\<close>

text \<open>
  C1. \<^verbatim>\<open>project\<close> maps the point through the pose, divides the first two coefficients
  of the result by the third, and then: with \<open>applyDistortion\<close> set and a model that
  reports \<^verbatim>\<open>have_disto()\<close> it applies \<^verbatim>\<open>add_disto\<close> before \<^verbatim>\<open>cam2ima\<close>; otherwise it applies
  \<^verbatim>\<open>cam2ima\<close> alone, with no distortion step. Stated for points whose third camera-frame
  coefficient is not zero.
\<close>

theorem project_steps:
  assumes "pose pt3D = (a, b, d)" and "d \<noteq> 0"
  shows "project c pose pt3D applyDistortion =
           (if applyDistortion \<and> have_disto c
            then cam2ima c (add_disto c (a / d, b / d))
            else cam2ima c (a / d, b / d))"
  using assms by (simp add: project_def Let_def)

theorem project_steps_witness:
  "project distorted_example (\<lambda>p. p) (1, 0, 10) True = (1160, 540) \<and>
   project distorted_example (\<lambda>p. p) (1, 0, 10) False = (1060, 540) \<and>
   project pinhole_example (\<lambda>p. p) (1, 0, 10) True = (1060, 540)"
  using project_steps [of "\<lambda>p. p" "(1, 0, 10)" 1 0 10 distorted_example True]
        project_steps [of "\<lambda>p. p" "(1, 0, 10)" 1 0 10 distorted_example False]
        project_steps [of "\<lambda>p. p" "(1, 0, 10)" 1 0 10 pinhole_example True]
  by (simp add: distorted_example_def pinhole_example_def)

subsection \<open>Residuals\<close>

lemma residuals_loop_columns:
  "numPts \<le> length X \<Longrightarrow> numPts \<le> length res \<Longrightarrow>
   \<exists>R. residuals_loop c pose X x numPts i res = Inr R \<and> length R = length res \<and>
       (\<forall>k<numPts. R ! k = (if i \<le> k then residual c pose (X ! k) (x ! k) else res ! k))"
proof (induction c pose X x numPts i res rule: residuals_loop.induct)
  case (1 c pose X x numPts i res)
  show ?case
  proof (cases "i < numPts")
    case True
    let ?res' = "res[i := residual c pose (X ! i) (x ! i)]"
    have iX: "i < length X" using True "1.prems" by simp
    have ilen: "i < length res" using True "1.prems" by simp
    have step: "residuals_loop c pose X x numPts i res =
        residuals_loop c pose X x numPts (i + 1) ?res'"
      using True iX by (subst residuals_loop.simps) simp
    have "numPts \<le> length ?res'" using "1.prems" by simp
    from "1.IH" [OF True iX "1.prems"(1) this]
    obtain R where R: "residuals_loop c pose X x numPts (i + 1) ?res' = Inr R"
      and len: "length R = length ?res'"
      and nth: "\<forall>k<numPts. R ! k =
          (if i + 1 \<le> k then residual c pose (X ! k) (x ! k) else ?res' ! k)"
      by blast
    have "\<forall>k<numPts. R ! k = (if i \<le> k then residual c pose (X ! k) (x ! k) else res ! k)"
    proof (intro allI impI)
      fix k assume k: "k < numPts"
      show "R ! k = (if i \<le> k then residual c pose (X ! k) (x ! k) else res ! k)"
      proof (cases "i = k")
        case True
        then show ?thesis using nth k ilen by simp
      next
        case False
        then show ?thesis using nth k by auto
      qed
    qed
    with step R len show ?thesis by simp
  next
    case False
    then show ?thesis by (subst residuals_loop.simps) simp
  qed
qed

lemma residuals_loop_out_of_bounds:
  "length X < numPts \<Longrightarrow> i \<le> length X \<Longrightarrow>
   residuals_loop c pose X x numPts i res = Inl OutOfBounds"
proof (induction c pose X x numPts i res rule: residuals_loop.induct)
  case (1 c pose X x numPts i res)
  show ?case
  proof (cases "i < length X")
    case True
    with "1.prems" have "i < numPts" by simp
    with "1.IH" [OF this True "1.prems"(1)] True show ?thesis
      by (subst residuals_loop.simps) simp
  next
    case False
    with "1.prems" show ?thesis by (subst residuals_loop.simps) simp
  qed
qed

text \<open>
  What a build with \<^verbatim>\<open>NDEBUG\<close> does, whatever the column counts: with fewer points than
  observations it reads beyond the last point; otherwise it returns one residual for each
  observation.
\<close>

lemma residuals_NDEBUG:
  "residuals True c pose X x =
     (if length X < length x then Inl OutOfBounds
      else Inr (map (\<lambda>i. residual c pose (X ! i) (x ! i)) [0..<length x]))"
proof (cases "length X < length x")
  case True
  then show ?thesis
    by (simp add: residuals_def Let_def residuals_loop_out_of_bounds)
next
  case False
  then have le: "length x \<le> length X" by simp
  from residuals_loop_columns [OF le, of "replicate (length x) (0, 0)" c pose x 0]
  obtain R where R: "residuals_loop c pose X x (length x) 0 (replicate (length x) (0, 0)) = Inr R"
    and len: "length R = length x"
    and nth: "\<forall>k<length x. R ! k = residual c pose (X ! k) (x ! k)"
    by auto
  have "R = map (\<lambda>i. residual c pose (X ! i) (x ! i)) [0..<length x]"
    using len nth by (intro nth_equalityI) simp_all
  with R False show ?thesis by (simp add: residuals_def Let_def)
qed

text \<open>
  C2. \<^verbatim>\<open>residual\<close> is the observation minus the projection with distortion applied, in
  that order; and on matrices of the same number of columns \<^verbatim>\<open>residuals\<close> returns a matrix
  of that many columns whose column \<open>i\<close> is \<^verbatim>\<open>residual\<close> of the columns \<open>i\<close> of its arguments,
  in a build with assertions and in one without.
\<close>

theorem residual_residuals_columns:
  "residual c pose P p = vec2_sub p (project c pose P True) \<and>
   (length X = length x \<longrightarrow>
      (\<exists>R. residuals NDEBUG c pose X x = Inr R \<and> length R = length x \<and>
           (\<forall>i<length x. R ! i = residual c pose (X ! i) (x ! i))))"
proof -
  have "residual c pose P p = vec2_sub p (project c pose P True)"
    by (simp add: residual_def)
  moreover have "length X = length x \<longrightarrow>
      (\<exists>R. residuals NDEBUG c pose X x = Inr R \<and> length R = length x \<and>
           (\<forall>i<length x. R ! i = residual c pose (X ! i) (x ! i)))"
  proof
    assume len: "length X = length x"
    then have le: "length x \<le> length X" by simp
    from residuals_loop_columns [OF le, of "replicate (length x) (0, 0)" c pose x 0]
    obtain R where "residuals_loop c pose X x (length x) 0 (replicate (length x) (0, 0)) = Inr R"
      and "length R = length x"
      and "\<forall>k<length x. R ! k = residual c pose (X ! k) (x ! k)"
      by auto
    moreover have "residuals NDEBUG c pose X x =
        residuals_loop c pose X x (length x) 0 (replicate (length x) (0, 0))"
      using len by (simp add: residuals_def Let_def)
    ultimately show "\<exists>R. residuals NDEBUG c pose X x = Inr R \<and> length R = length x \<and>
           (\<forall>i<length x. R ! i = residual c pose (X ! i) (x ! i))"
      by auto
  qed
  ultimately show ?thesis by blast
qed

theorem residual_residuals_columns_witness:
  "residual pinhole_example (\<lambda>p. p) (1, 0, 10) (1061, 542) = (1, 2) \<and>
   residuals False pinhole_example (\<lambda>p. p) [(0, 0, 10), (1, 0, 10)] [(960, 541), (1061, 542)]
     = Inr [(0, 1), (1, 2)] \<and>
   residuals True pinhole_example (\<lambda>p. p) [(0, 0, 10), (1, 0, 10)] [(960, 541), (1061, 542)]
     = Inr [(0, 1), (1, 2)]"
proof -
  let ?X = "[(0, 0, 10), (1, 0, 10)] :: Mat3X"
  let ?x = "[(960, 541), (1061, 542)] :: Mat2X"
  have p0: "project pinhole_example (\<lambda>p. p) (0, 0, 10) True = (960, 540)"
    by (simp add: project_def pinhole_example_def)
  have p1: "project pinhole_example (\<lambda>p. p) (1, 0, 10) True = (1060, 540)"
    by (simp add: project_def pinhole_example_def)
  have build: "residuals b pinhole_example (\<lambda>p. p) ?X ?x = Inr [(0, 1), (1, 2)]" for b
  proof -
    from residual_residuals_columns [where NDEBUG = b and c = pinhole_example
        and pose = "\<lambda>p. p" and P = "(1, 0, 10)" and p = "(1061, 542)" and X = ?X and x = ?x]
    have "\<exists>R. residuals b pinhole_example (\<lambda>p. p) ?X ?x = Inr R \<and> length R = length ?x \<and>
        (\<forall>i<length ?x. R ! i = residual pinhole_example (\<lambda>p. p) (?X ! i) (?x ! i))"
      by simp
    then obtain R where r2: "residuals b pinhole_example (\<lambda>p. p) ?X ?x = Inr R"
      and r3: "length R = 2"
      and r4: "\<forall>i<2. R ! i = residual pinhole_example (\<lambda>p. p) (?X ! i) (?x ! i)"
      by auto
    have e0: "R ! 0 = (0, 1)" using r4 p0 by (simp add: residual_def)
    have e1: "R ! 1 = (1, 2)" using r4 p1 by (simp add: residual_def)
    have "R = [(0, 1), (1, 2)]"
      using r3 e0 e1 by (intro nth_equalityI) (auto simp: less_Suc_eq numeral_2_eq_2)
    with r2 show ?thesis by simp
  qed
  from residual_residuals_columns [where NDEBUG = False and c = pinhole_example
      and pose = "\<lambda>p. p" and P = "(1, 0, 10)" and p = "(1061, 542)" and X = ?X and x = ?x]
  have "residual pinhole_example (\<lambda>p. p) (1, 0, 10) (1061, 542)
        = vec2_sub (1061, 542) (project pinhole_example (\<lambda>p. p) (1, 0, 10) True)"
    by blast
  with p1 build [of False] build [of True] show ?thesis by simp
qed

text \<open>
  C3, as the code has it. In a build with assertions (\<^verbatim>\<open>NDEBUG\<close> not defined), when the two
  matrices differ in their number of columns, \<^verbatim>\<open>residuals\<close> stops at the assertion: the
  outcome is the failure, and no residual is computed.
\<close>

theorem residuals_count_mismatch:
  "\<not> NDEBUG \<Longrightarrow> length X \<noteq> length x \<Longrightarrow> residuals NDEBUG c pose X x = Inl AssertionFailed"
  by (simp add: residuals_def)

theorem residuals_count_mismatch_witness:
  "\<not> False \<and>
   length [(0, 0, 10), (1, 0, 10) :: Vec3] \<noteq> length [(960, 541) :: Vec2] \<and>
   residuals False pinhole_example (\<lambda>p. p) [(0, 0, 10), (1, 0, 10)] [(960, 541)]
     = Inl AssertionFailed"
  using residuals_count_mismatch [of False "[(0, 0, 10), (1, 0, 10)]" "[(960, 541)]"
      pinhole_example "\<lambda>p. p"]
  by simp

text \<open>
  The claim C3 as it is written, for every call, fails: in a build with \<^verbatim>\<open>NDEBUG\<close> the
  assertion is not there, and on two points and one observation \<^verbatim>\<open>residuals\<close> computes the
  residual of the first point and returns it.
\<close>

theorem residuals_count_mismatch_NDEBUG:
  "length [(0, 0, 10), (1, 0, 10) :: Vec3] \<noteq> length [(960, 541) :: Vec2] \<and>
   residuals True pinhole_example (\<lambda>p. p) [(0, 0, 10), (1, 0, 10)] [(960, 541)]
     = Inr [(0, 1)]"
  by (simp add: residuals_def residuals_loop.simps residual_def project_def pinhole_example_def)

subsection \<open>Equality and hashing\<close>

text \<open>
  C6. Two models compare equal exactly when their widths, heights, serial numbers, type
  tags and parameter sequences (same length, same value at every index) agree. Nothing
  else takes part: changing the initial focal length, or what the other virtual members
  do, on either side leaves the comparison as it was.
\<close>

theorem operator_eq_fields:
  "(operator_eq a b \<longleftrightarrow>
      m_w a = m_w b \<and> m_h a = m_h b \<and> m_serialNumber a = m_serialNumber b \<and>
      getType a = getType b \<and>
      length (getParams a) = length (getParams b) \<and>
      (\<forall>i<length (getParams a). getParams a ! i = getParams b ! i)) \<and>
   operator_eq (a\<lparr>m_initialFocalLengthPix := f, have_disto := d, cam2ima := g, add_disto := k\<rparr>) b
     = operator_eq a b \<and>
   operator_eq a (b\<lparr>m_initialFocalLengthPix := f, have_disto := d, cam2ima := g, add_disto := k\<rparr>)
     = operator_eq a b"
  by (auto simp: operator_eq_def list_eq_iff_nth_eq)

theorem operator_eq_fields_witness:
  "operator_eq pinhole_example
     (pinhole_example\<lparr>m_initialFocalLengthPix := 1000, have_disto := True,
                       cam2ima := (\<lambda>p. p), add_disto := (\<lambda>p. p)\<rparr>) \<and>
   \<not> operator_eq pinhole_example distorted_example \<and>
   \<not> operator_eq pinhole_example (pinhole_example\<lparr>getParams := [1000, 540, 960]\<rparr>)"
proof -
  have same: "operator_eq pinhole_example pinhole_example"
    using operator_eq_fields [where a = pinhole_example and b = pinhole_example] by simp
  have "operator_eq pinhole_example
     (pinhole_example\<lparr>m_initialFocalLengthPix := 1000, have_disto := True,
                       cam2ima := (\<lambda>p. p), add_disto := (\<lambda>p. p)\<rparr>)"
    using same
      operator_eq_fields [where a = pinhole_example and b = pinhole_example and f = 1000
        and d = True and g = "\<lambda>p. p" and k = "\<lambda>p. p"]
    by simp
  moreover have "\<not> operator_eq pinhole_example distorted_example"
    using operator_eq_fields [where a = pinhole_example and b = distorted_example]
    by (simp add: pinhole_example_def distorted_example_def)
  moreover have "\<not> operator_eq pinhole_example (pinhole_example\<lparr>getParams := [1000, 540, 960]\<rparr>)"
    using operator_eq_fields [where a = pinhole_example
        and b = "pinhole_example\<lparr>getParams := [1000, 540, 960]\<rparr>"]
    by (auto simp: pinhole_example_def intro: exI [of _ 1])
  ultimately show ?thesis by simp
qed

lemma hashValue_loop_foldl:
  "i \<le> length params \<Longrightarrow>
   hashValue_loop hc params i seed = foldl (hash_combine_double hc) seed (drop i params)"
proof (induction hc params i seed rule: hashValue_loop.induct)
  case (1 hc params i seed)
  show ?case
  proof (cases "i < length params")
    case True
    then have "drop i params = params ! i # drop (i + 1) params"
      by (simp add: Cons_nth_drop_Suc)
    with True "1.IH" show ?thesis
      by (subst hashValue_loop.simps) simp
  next
    case False
    with "1.prems" show ?thesis
      by (subst hashValue_loop.simps) simp
  qed
qed

text \<open>
  C7. \<^verbatim>\<open>hashValue\<close> starts from the seed 0 and combines into it the type tag, the width,
  the height, the serial number and then the parameters from the first to the last, in
  this order and nothing else; hence two models that compare equal have the same hash
  value. This holds whatever \<^verbatim>\<open>hash_combine\<close> computes.
\<close>

theorem hashValue_order:
  "hashValue hc c =
     foldl (hash_combine_double hc)
       (hash_combine_string hc
          (hash_combine_uint hc
             (hash_combine_uint hc
                (hash_combine_int hc 0 (getType c))
                (m_w c))
             (m_h c))
          (m_serialNumber c))
       (getParams c) \<and>
   (operator_eq a b \<longrightarrow> hashValue hc a = hashValue hc b)"
  by (simp add: hashValue_def Let_def hashValue_loop_foldl operator_eq_def)

theorem hashValue_order_witness:
  "operator_eq (pinhole_example\<lparr>m_initialFocalLengthPix := 1000\<rparr>) pinhole_example \<and>
   hashValue hash_combine_example (pinhole_example\<lparr>m_initialFocalLengthPix := 1000\<rparr>)
     = hashValue hash_combine_example pinhole_example \<and>
   hashValue hash_combine_example pinhole_example = 56853867581"
proof -
  let ?a = "pinhole_example\<lparr>m_initialFocalLengthPix := 1000\<rparr>"
  note h = hashValue_order [where hc = hash_combine_example and c = pinhole_example
      and a = ?a and b = pinhole_example]
  have e: "operator_eq ?a pinhole_example" by (simp add: operator_eq_def)
  have "hashValue hash_combine_example pinhole_example = 56853867581"
    using h by (simp add: pinhole_example_def hash_combine_example_def)
  with e h show ?thesis by simp
qed

subsection \<open>Reading an archive\<close>

text \<open>
  C8. An archive that holds the width and the height is read without failure. When it
  has no serial number the model ends with the empty serial number, when it has no
  initial focal length the model ends with \<open>-1\<close>, whatever the model held before; and
  the model read is valid exactly when the width and the height read are not zero.
\<close>

theorem load_legacy:
  assumes "ar ''width'' = Some (UIntValue wv)" and "ar ''height'' = Some (UIntValue hv)"
  shows "\<exists>c'. load ar c = Inr c' \<and> m_w c' = wv \<and> m_h c' = hv \<and>
           (ar ''serialNumber'' = None \<longrightarrow> m_serialNumber c' = []) \<and>
           (ar ''initialFocalLengthPix'' = None \<longrightarrow> m_initialFocalLengthPix c' = - 1) \<and>
           (isValid c' \<longleftrightarrow> wv \<noteq> 0 \<and> hv \<noteq> 0)"
  using assms
  by (auto simp: load_def ar_uint_def ar_string_def ar_double_def isValid_def Let_def
           split: sum.splits option.splits nvp_value.splits)

theorem load_legacy_witness:
  "legacy_archive ''width'' = Some (UIntValue 640) \<and>
   legacy_archive ''height'' = Some (UIntValue 480) \<and>
   legacy_archive ''serialNumber'' = None \<and>
   legacy_archive ''initialFocalLengthPix'' = None \<and>
   (\<exists>c'. load legacy_archive
            (pinhole_example\<lparr>m_serialNumber := ''SN1'', m_initialFocalLengthPix := 1000\<rparr>) = Inr c' \<and>
         m_w c' = 640 \<and> m_h c' = 480 \<and> m_serialNumber c' = [] \<and>
         m_initialFocalLengthPix c' = - 1 \<and> isValid c')"
proof -
  have a: "legacy_archive ''width'' = Some (UIntValue 640)"
    and b: "legacy_archive ''height'' = Some (UIntValue 480)"
    and c: "legacy_archive ''serialNumber'' = None"
    and d: "legacy_archive ''initialFocalLengthPix'' = None"
    by (simp_all add: legacy_archive_def)
  from load_legacy [OF a b,
      of "pinhole_example\<lparr>m_serialNumber := ''SN1'', m_initialFocalLengthPix := 1000\<rparr>"]
  show ?thesis using a b c d by simp
qed

subsection \<open>The angle between two rays\<close>

lemma clamp_bounds: "lo \<le> hi \<Longrightarrow> lo \<le> clamp v lo hi \<and> clamp v lo hi \<le> hi"
  by (simp add: clamp_def)

lemma cos_upper:
  assumes "0 < (x::real)"
  shows "cos x \<le> 1 - x\<^sup>2 / 2 + x ^ 4 / 24"
proof -
  from Maclaurin_cos_expansion2 [OF assms, of 4]
  obtain t where t: "cos x = (\<Sum>m<4. cos_coeff m * x ^ m) + (cos (t + 1/2 * real 4 * pi) / fact 4) * x ^ 4"
    by auto
  have "(\<Sum>m<4. cos_coeff m * x ^ m) =
      cos_coeff 0 * x ^ 0 + cos_coeff 1 * x ^ 1 + cos_coeff 2 * x ^ 2 + cos_coeff 3 * x ^ 3"
    by (simp add: numeral_eq_Suc)
  also have "\<dots> = 1 - x\<^sup>2 / 2"
    by (simp add: cos_coeff_def)
  finally have s: "(\<Sum>m<4. cos_coeff m * x ^ m) = 1 - x\<^sup>2 / 2" .
  have f: "fact 4 = (24::real)" by (simp add: numeral_eq_Suc)
  have c: "cos (t + 1/2 * real 4 * pi) \<le> 1" by (rule cos_le_one)
  have "cos (t + 1/2 * real 4 * pi) / fact 4 * x ^ 4 \<le> 1 / 24 * x ^ 4"
    unfolding f using c by (intro mult_right_mono divide_right_mono) auto
  with t s show ?thesis by simp
qed

lemma cos_small: "cos (1 / 4500 :: real) < 1 - 1 / 10 ^ 8"
proof -
  have "cos (1 / 4500 :: real) \<le> 1 - (1 / 4500)\<^sup>2 / 2 + (1 / 4500) ^ 4 / 24"
    by (rule cos_upper) simp
  also have "\<dots> < 1 - 1 / 10 ^ 8" by (simp add: power2_eq_square power4_eq_xxxx)
  finally show ?thesis .
qed

lemma arccos_eps_bounds: "0 < arccos (1 - 1 / 10 ^ 8) \<and> arccos (1 - 1 / 10 ^ 8) < pi / 9000"
proof
  have "0 \<le> arccos (1 - 1 / 10 ^ 8)" by (rule arccos_lbound) simp_all
  moreover have "arccos (1 - 1 / 10 ^ 8) \<noteq> 0"
    using arccos_eq_0_iff [of "1 - 1 / 10 ^ 8"] by simp
  ultimately show "0 < arccos (1 - 1 / 10 ^ 8)" by simp
next
  have pi2: "2 \<le> pi" by (rule pi_ge_two)
  have t0: "0 \<le> pi / 9000" by simp
  have t1: "pi / 9000 \<le> pi" by simp
  have "1 / 4500 \<le> pi / 9000" using pi2 by simp
  then have "cos (pi / 9000) \<le> cos (1 / 4500)"
    using t1 by (intro cos_monotone_0_pi_le) simp_all
  with cos_small have lt: "cos (pi / 9000) < 1 - 1 / 10 ^ 8" by simp
  have "arccos (1 - 1 / 10 ^ 8) < arccos (cos (pi / 9000))"
    using lt by (intro arccos_less_arccos) simp_all
  then show "arccos (1 - 1 / 10 ^ 8) < pi / 9000"
    using arccos_cos [OF t0 t1] by simp
qed

lemma cosine_same:
  assumes "r \<noteq> (0, 0, 0)"
  shows "dot3 r r / (norm3 r * norm3 r) = 1"
proof -
  obtain a b c where r: "r = (a, b, c)" by (cases r)
  have nn: "0 \<le> a * a + b * b + c * c" by simp
  have "a * a + b * b + c * c \<noteq> 0"
    using assms r by (auto simp: sum_squares_eq_zero_iff add_nonneg_eq_0_iff)
  then show ?thesis using nn by (simp add: r)
qed

lemma cosine_opposite:
  assumes "r \<noteq> (0, 0, 0)"
  shows "dot3 r (vec3_neg r) / (norm3 r * norm3 (vec3_neg r)) = - 1"
proof -
  obtain a b c where r: "r = (a, b, c)" by (cases r)
  have nn: "0 \<le> a * a + b * b + c * c" by simp
  have nz: "a * a + b * b + c * c \<noteq> 0"
    using assms r by (auto simp: sum_squares_eq_zero_iff add_nonneg_eq_0_iff)
  define q where "q = a * a + b * b + c * c"
  have "dot3 r (vec3_neg r) = - q" by (simp add: r q_def)
  moreover have "norm3 r * norm3 (vec3_neg r) = q"
    using nn by (simp add: r q_def)
  ultimately show ?thesis using nz by (simp add: q_def [symmetric])
qed

lemma clamp_one: "clamp 1 (- 1 + 1 / 10 ^ 8) (1 - 1 / 10 ^ 8) = 1 - 1 / 10 ^ 8"
  by (simp add: clamp_def)

lemma clamp_minus_one: "clamp (- 1) (- 1 + 1 / 10 ^ 8) (1 - 1 / 10 ^ 8) = - (1 - 1 / 10 ^ 8)"
  by (simp add: clamp_def)

text \<open>
  C4. For rays that are not zero, what \<^verbatim>\<open>AngleBetweenRays\<close> passes to the inverse cosine
  is the cosine \<open>dot(ray1, ray2) / (|ray1| |ray2|)\<close> clamped between \<open>-1 + 1e-8\<close> and
  \<open>1 - 1e-8\<close>, so it lies in \<open>[-1, 1]\<close>, where the inverse cosine is defined. The bound
  comes from the clamp alone and uses nothing about the quotient, so it covers a
  quotient of exactly 1 or -1 as well as one that rounding has pushed beyond.
\<close>

theorem acos_argument_in_domain:
  assumes "ray1 \<noteq> (0, 0, 0)" and "ray2 \<noteq> (0, 0, 0)"
  shows "\<exists>arg. AngleBetweenRays ray1 ray2 = radianToDegree (arccos arg) \<and>
           arg = clamp (dot3 ray1 ray2 / (norm3 ray1 * norm3 ray2))
                   (- 1 + 1 / 10 ^ 8) (1 - 1 / 10 ^ 8) \<and>
           - 1 \<le> arg \<and> arg \<le> 1 \<and> - 1 + 1 / 10 ^ 8 \<le> arg \<and> arg \<le> 1 - 1 / 10 ^ 8"
proof -
  let ?arg = "clamp (dot3 ray1 ray2 / (norm3 ray1 * norm3 ray2)) (- 1 + 1 / 10 ^ 8) (1 - 1 / 10 ^ 8)"
  have b: "- 1 + 1 / 10 ^ 8 \<le> ?arg \<and> ?arg \<le> 1 - 1 / 10 ^ 8"
    by (rule clamp_bounds) simp
  then have "- 1 \<le> ?arg \<and> ?arg \<le> 1" by simp
  moreover have "AngleBetweenRays ray1 ray2 = radianToDegree (arccos ?arg)"
    by (simp add: AngleBetweenRays_def Let_def)
  ultimately show ?thesis using b by blast
qed

theorem acos_argument_in_domain_witness:
  "((3, 0, 4) :: Vec3) \<noteq> (0, 0, 0) \<and>
   (\<exists>arg. AngleBetweenRays (3, 0, 4) (3, 0, 4) = radianToDegree (arccos arg) \<and>
          arg = 1 - 1 / 10 ^ 8 \<and> - 1 \<le> arg \<and> arg \<le> 1)"
proof -
  have nz: "((3, 0, 4) :: Vec3) \<noteq> (0, 0, 0)" by simp
  have "dot3 (3, 0, 4) (3, 0, 4) / (norm3 (3, 0, 4) * norm3 (3, 0, 4)) = 1"
    by (rule cosine_same) simp
  with acos_argument_in_domain [OF nz nz] nz show ?thesis
    by (simp only: clamp_one) blast
qed

text \<open>
  C5, as the code has it. For a ray \<open>r\<close> whose squared norm lies between \<open>1e-300\<close> and
  \<open>1e300\<close>, so that it neither overflows nor underflows in the source,
  \<^verbatim>\<open>AngleBetweenRays(r, r)\<close> is the angle whose cosine is \<open>1 - 1e-8\<close>, in degrees: more than 0
  and less than 0.02 degrees, so 0 within that tolerance but not 0 itself; and
  \<^verbatim>\<open>AngleBetweenRays(r, -r)\<close> is 180 degrees minus that angle. Nothing is said of the rays
  outside that range.
\<close>

theorem angle_same_and_opposite:
  assumes range: "squared_norm_in_range r"
  shows "AngleBetweenRays r r = radianToDegree (arccos (1 - 1 / 10 ^ 8)) \<and>
         0 < AngleBetweenRays r r \<and> AngleBetweenRays r r < 2 / 100 \<and>
         AngleBetweenRays r (vec3_neg r) = 180 - AngleBetweenRays r r"
proof -
  have "(0::real) < 1 / 10 ^ 300" by simp
  moreover from range have "1 / 10 ^ 300 \<le> dot3 r r"
    by (simp only: squared_norm_in_range_def)
  ultimately have "0 < dot3 r r" by (rule less_le_trans)
  then have assms: "r \<noteq> (0, 0, 0)" by auto
  let ?A = "arccos (1 - 1 / 10 ^ 8)"
  have same: "AngleBetweenRays r r = radianToDegree ?A"
    by (simp only: AngleBetweenRays_def Let_def cosine_same [OF assms] clamp_one)
  have "arccos (- (1 - 1 / 10 ^ 8)) = pi - ?A"
    by (rule arccos_minus) simp_all
  then have opp: "AngleBetweenRays r (vec3_neg r) = radianToDegree (pi - ?A)"
    by (simp only: AngleBetweenRays_def Let_def cosine_opposite [OF assms] clamp_minus_one)
  have pos: "0 < radianToDegree ?A"
    using arccos_eps_bounds by (simp add: radianToDegree_def)
  have "?A / pi < 1 / 9000"
    using arccos_eps_bounds by (simp add: divide_simps)
  then have small: "radianToDegree ?A < 2 / 100"
    by (simp add: radianToDegree_def)
  have "radianToDegree (pi - ?A) = 180 - radianToDegree ?A"
    by (simp add: radianToDegree_def diff_divide_distrib)
  with same opp pos small show ?thesis by simp
qed

theorem angle_same_and_opposite_witness:
  "squared_norm_in_range (3, 0, 4) \<and>
   0 < AngleBetweenRays (3, 0, 4) (3, 0, 4) \<and>
   AngleBetweenRays (3, 0, 4) (3, 0, 4) < 2 / 100 \<and>
   AngleBetweenRays (3, 0, 4) (- 3, 0, - 4) = 180 - AngleBetweenRays (3, 0, 4) (3, 0, 4)"
proof -
  have "(1::real) / 10 ^ 300 \<le> 1" by simp
  moreover have "(1::real) \<le> 10 ^ 300" by simp
  ultimately have r: "squared_norm_in_range (3, 0, 4)"
    by (simp only: squared_norm_in_range_def dot3.simps) simp
  from angle_same_and_opposite [OF r] r show ?thesis by simp
qed

text \<open>
  The claim C5 as it is written fails: the angle of the ray \<open>(1, 0, 0)\<close> with itself is not
  0 degrees. Every operation before the clamp is exact on this ray in double arithmetic as
  well (norm 1, product 1, quotient 1), and the clamp brings the cosine down to
  \<open>1 - 1e-8\<close>.
\<close>

theorem angle_same_not_zero: "AngleBetweenRays (1, 0, 0) (1, 0, 0) \<noteq> 0"
proof -
  have "0 < arccos (1 - 1 / 10 ^ 8)" using arccos_eps_bounds by simp
  then show ?thesis
    by (simp add: AngleBetweenRays_def Let_def clamp_def radianToDegree_def)
qed

subsection \<open>Loading a feature file\<close>

lemma read_float_Some:
  "read_float s = (Some v, s') \<Longrightarrow> length (tokens s') < length (tokens s)"
  by (auto simp: read_float_def split: if_splits list.splits token.splits)

lemma read_float_length:
  "read_float s = (r, s') \<Longrightarrow> length (tokens s') \<le> length (tokens s)"
  by (auto simp: read_float_def split: if_splits list.splits token.splits)

lemma consumes_read_PointFeature: "consumes read_PointFeature"
  unfolding consumes_def
proof (intro allI impI)
  fix s v s'
  assume a: "read_PointFeature s = (Some v, s')"
  obtain x s1 where r1: "read_float s = (x, s1)" by (cases "read_float s")
  obtain y s2 where r2: "read_float s1 = (y, s2)" by (cases "read_float s1")
  from a r1 r2 have "s' = s2" and "x \<noteq> None"
    by (auto simp: read_PointFeature_def split: option.splits)
  with r1 r2 read_float_Some [of s _ s1] read_float_length [of s1 y s2]
  show "length (tokens s') < length (tokens s)" by fastforce
qed

lemma consumes_read_SIOPointFeature: "consumes read_SIOPointFeature"
  unfolding consumes_def
proof (intro allI impI)
  fix s v s'
  assume a: "read_SIOPointFeature s = (Some v, s')"
  obtain p s1 where r1: "read_PointFeature s = (p, s1)" by (cases "read_PointFeature s")
  obtain x s2 where r2: "read_float s1 = (x, s2)" by (cases "read_float s1")
  obtain y s3 where r3: "read_float s2 = (y, s3)" by (cases "read_float s2")
  from a r1 r2 r3 have "s' = s3" and "p \<noteq> None"
    by (auto simp: read_SIOPointFeature_def split: option.splits)
  moreover from \<open>p \<noteq> None\<close> r1 consumes_read_PointFeature
  have "length (tokens s1) < length (tokens s)" by (auto simp: consumes_def)
  ultimately show "length (tokens s') < length (tokens s)"
    using read_float_length [OF r2] read_float_length [OF r3] by simp
qed

text \<open>The copy loop returns for every extraction that consumes input.\<close>

lemma copy_istream_returns:
  assumes "consumes extract"
  shows "\<exists>r. copy_istream extract s vec = Some r"
proof (induction "length (tokens s)" arbitrary: s vec rule: less_induct)
  case less
  obtain r s' where e: "extract s = (r, s')" by (cases "extract s")
  show ?case
  proof (cases r)
    case None
    with e show ?thesis by (subst copy_istream.simps) simp
  next
    case (Some v)
    with e assms have "length (tokens s') < length (tokens s)" by (auto simp: consumes_def)
    from less [OF this, of "vec @ [v]"] e Some show ?thesis
      by (subst copy_istream.simps) simp
  qed
qed

text \<open>
  The extractions of the source hand on a value exactly when the stream has not failed
  afterwards, which is the test \<^verbatim>\<open>istream_iterator\<close> makes.
\<close>

lemma read_float_value_iff_good:
  "\<not> fail s \<Longrightarrow> read_float s = (r, s') \<Longrightarrow> (r \<noteq> None \<longleftrightarrow> \<not> fail s')"
  by (auto simp: read_float_def fail_def split: list.splits token.splits)

lemma read_float_failed: "fail s \<Longrightarrow> read_float s = (r, s') \<Longrightarrow> r = None \<and> fail s'"
  by (auto simp: read_float_def fail_def)

lemma read_PointFeature_value_iff_good:
  assumes "\<not> fail s" and "read_PointFeature s = (r, s')"
  shows "r \<noteq> None \<longleftrightarrow> \<not> fail s'"
proof -
  obtain x s1 where r1: "read_float s = (x, s1)" by (cases "read_float s")
  obtain y s2 where r2: "read_float s1 = (y, s2)" by (cases "read_float s1")
  from assms(2) r1 r2 have s': "s' = s2" and r: "r \<noteq> None \<longleftrightarrow> x \<noteq> None \<and> y \<noteq> None"
    by (auto simp: read_PointFeature_def split: option.splits)
  show ?thesis
  proof (cases "fail s1")
    case True
    with read_float_failed [OF True r2] read_float_value_iff_good [OF assms(1) r1]
    show ?thesis using r s' by simp
  next
    case False
    with read_float_value_iff_good [OF False r2] read_float_value_iff_good [OF assms(1) r1]
    show ?thesis using r s' by simp
  qed
qed

text \<open>
  A file of \<open>2n\<close> numbers is read as \<open>n\<close> point features, in order; the stream ends failed
  (the end of the input) and not bad, so the call returns normally.
\<close>

lemma copy_istream_numbers:
  "copy_istream read_PointFeature
     (ifstream_open (concat (map (\<lambda>(x, y). [Number x, Number y]) ps))) vec =
   Some (vec @ map (\<lambda>p. \<lparr> m_coords = p \<rparr>) ps,
         \<lparr> tokens = [], failbit = True, badbit = False \<rparr>)"
proof (induction ps arbitrary: vec)
  case Nil
  show ?case
    by (subst copy_istream.simps)
       (simp add: read_PointFeature_def read_float_def fail_def ifstream_open_def)
next
  case (Cons p ps)
  obtain x y where p: "p = (x, y)" by (cases p)
  have "read_PointFeature (ifstream_open (concat (map (\<lambda>(x, y). [Number x, Number y]) (p # ps)))) =
      (Some \<lparr> m_coords = (x, y) \<rparr>, ifstream_open (concat (map (\<lambda>(x, y). [Number x, Number y]) ps)))"
    by (simp add: p read_PointFeature_def read_float_def fail_def ifstream_open_def)
  then show ?case
    using Cons [of "vec @ [\<lparr> m_coords = (x, y) \<rparr>]"]
    by (subst copy_istream.simps) (simp add: p)
qed

lemma loadFeatsFromFile_numbers:
  "fs f = Some (concat (map (\<lambda>(x, y). [Number x, Number y]) ps)) \<Longrightarrow>
   loadFeatsFromFile read_PointFeature fs f v = Some (Inr (), map (\<lambda>p. \<lparr> m_coords = p \<rparr>) ps)"
  by (simp add: loadFeatsFromFile_def copy_istream_numbers bad_def)

lemma messages_differ: "cant_open_message f \<noteq> is_incorrect_message f"
  by (simp add: cant_open_message_def is_incorrect_message_def)

lemma copy_two_feat:
  "copy_istream read_PointFeature
     (ifstream_open [Number 10.5, Number 20.25, Number 30, Number 40]) [] =
   Some ([\<lparr>m_coords = (10.5, 20.25)\<rparr>, \<lparr>m_coords = (30, 40)\<rparr>],
         \<lparr>tokens = [], failbit = True, badbit = False\<rparr>)"
  by (simp add: copy_istream.simps read_PointFeature_def read_float_def fail_def ifstream_open_def)

lemma copy_broken_feat:
  "copy_istream read_PointFeature (ifstream_open [Number 1, Number 2, ReadError]) [] =
   Some ([\<lparr>m_coords = (1, 2)\<rparr>], \<lparr>tokens = [ReadError], failbit = True, badbit = True\<rparr>)"
  by (simp add: copy_istream.simps read_PointFeature_def read_float_def fail_def ifstream_open_def)

lemma copy_text_feat:
  "copy_istream read_PointFeature (ifstream_open [Number 1, Number 2, Garbage, Number 3]) [] =
   Some ([\<lparr>m_coords = (1, 2)\<rparr>], \<lparr>tokens = [Garbage, Number 3], failbit = True, badbit = False\<rparr>)"
  by (simp add: copy_istream.simps read_PointFeature_def read_float_def fail_def ifstream_open_def)

text \<open>
  C9. For an extraction that consumes input, \<^verbatim>\<open>loadFeatsFromFile\<close> returns, in one of
  three ways: with the exception whose message says that the file cannot be opened,
  exactly when the file cannot be opened; with the exception whose message says that the
  file is incorrect, a message different from the first, exactly when the file was opened
  and the stream is bad after the reads; and otherwise normally. In the last two cases
  the vector holds the features that were read.
\<close>

theorem loadFeatsFromFile_outcomes:
  assumes "consumes extract"
  shows "\<exists>st vec. loadFeatsFromFile extract fs f v = Some (st, vec) \<and>
           (st = Inl (runtime_error (cant_open_message f)) \<or>
            st = Inl (runtime_error (is_incorrect_message f)) \<or>
            st = Inr ()) \<and>
           (st = Inl (runtime_error (cant_open_message f)) \<longleftrightarrow> fs f = None) \<and>
           (st = Inl (runtime_error (is_incorrect_message f)) \<longleftrightarrow>
              (\<exists>content feats fileIn. fs f = Some content \<and>
                 copy_istream extract (ifstream_open content) [] = Some (feats, fileIn) \<and>
                 bad fileIn \<and> vec = feats)) \<and>
           (st = Inr () \<longleftrightarrow>
              (\<exists>content feats fileIn. fs f = Some content \<and>
                 copy_istream extract (ifstream_open content) [] = Some (feats, fileIn) \<and>
                 \<not> bad fileIn \<and> vec = feats)) \<and>
           cant_open_message f \<noteq> is_incorrect_message f"
proof (cases "fs f")
  case None
  then show ?thesis
    by (simp add: loadFeatsFromFile_def messages_differ)
next
  case (Some content)
  from copy_istream_returns [OF assms, of "ifstream_open content" "[]"]
  obtain feats fileIn where c: "copy_istream extract (ifstream_open content) [] = Some (feats, fileIn)"
    by auto
  show ?thesis
  proof (cases "bad fileIn")
    case True
    with Some c show ?thesis
      using messages_differ [of f] by (auto simp: loadFeatsFromFile_def)
  next
    case False
    with Some c show ?thesis
      using messages_differ [of f] by (auto simp: loadFeatsFromFile_def)
  qed
qed

theorem loadFeatsFromFile_outcomes_witness:
  "consumes read_PointFeature \<and>
   loadFeatsFromFile read_PointFeature example_fs ''two.feat'' [] =
     Some (Inr (), [\<lparr>m_coords = (10.5, 20.25)\<rparr>, \<lparr>m_coords = (30, 40)\<rparr>]) \<and>
   loadFeatsFromFile read_PointFeature example_fs ''broken.feat'' [] =
     Some (Inl (runtime_error (is_incorrect_message ''broken.feat'')), [\<lparr>m_coords = (1, 2)\<rparr>]) \<and>
   loadFeatsFromFile read_PointFeature example_fs ''text.feat'' [] =
     Some (Inr (), [\<lparr>m_coords = (1, 2)\<rparr>]) \<and>
   (\<exists>vec. loadFeatsFromFile read_PointFeature example_fs ''none.feat'' [] =
     Some (Inl (runtime_error (cant_open_message ''none.feat'')), vec))"
proof -
  note t = loadFeatsFromFile_outcomes [OF consumes_read_PointFeature, of example_fs _ "[]"]
  have f1: "example_fs ''two.feat'' = Some [Number 10.5, Number 20.25, Number 30, Number 40]"
    and f2: "example_fs ''broken.feat'' = Some [Number 1, Number 2, ReadError]"
    and f3: "example_fs ''text.feat'' = Some [Number 1, Number 2, Garbage, Number 3]"
    and f4: "example_fs ''none.feat'' = None"
    by (simp_all add: example_fs_def)
  have "loadFeatsFromFile read_PointFeature example_fs ''two.feat'' [] =
     Some (Inr (), [\<lparr>m_coords = (10.5, 20.25)\<rparr>, \<lparr>m_coords = (30, 40)\<rparr>])"
    using t [of "''two.feat''"] copy_two_feat by (auto simp: f1 bad_def)
  moreover have "loadFeatsFromFile read_PointFeature example_fs ''broken.feat'' [] =
     Some (Inl (runtime_error (is_incorrect_message ''broken.feat'')), [\<lparr>m_coords = (1, 2)\<rparr>])"
    using t [of "''broken.feat''"] copy_broken_feat by (auto simp: f2 bad_def)
  moreover have "loadFeatsFromFile read_PointFeature example_fs ''text.feat'' [] =
     Some (Inr (), [\<lparr>m_coords = (1, 2)\<rparr>])"
    using t [of "''text.feat''"] copy_text_feat by (auto simp: f3 bad_def)
  moreover have "\<exists>vec. loadFeatsFromFile read_PointFeature example_fs ''none.feat'' [] =
     Some (Inl (runtime_error (cant_open_message ''none.feat'')), vec)"
    using t [of "''none.feat''"] by (auto simp: f4)
  ultimately show ?thesis using consumes_read_PointFeature by simp
qed

text \<open>
  C10. \<^verbatim>\<open>loadFeatsFromFile\<close> clears the vector before it tries to open the file: what the
  vector held before the call has no effect on the outcome, which is that of the call on
  the empty vector, and when the file cannot be opened the caller is left with the
  exception and an empty vector.
\<close>

theorem loadFeatsFromFile_clears:
  "loadFeatsFromFile extract fs f v = loadFeatsFromFile extract fs f [] \<and>
   (fs f = None \<longrightarrow>
      loadFeatsFromFile extract fs f v = Some (Inl (runtime_error (cant_open_message f)), []))"
  by (simp add: loadFeatsFromFile_def)

theorem loadFeatsFromFile_clears_witness:
  "example_fs ''none.feat'' = None \<and>
   loadFeatsFromFile read_PointFeature example_fs ''none.feat'' [\<lparr>m_coords = (7, 8)\<rparr>] =
     Some (Inl (runtime_error (cant_open_message ''none.feat'')), []) \<and>
   loadFeatsFromFile read_PointFeature example_fs ''two.feat'' [\<lparr>m_coords = (7, 8)\<rparr>] =
     loadFeatsFromFile read_PointFeature example_fs ''two.feat'' []"
proof -
  have n: "example_fs ''none.feat'' = None" by (simp add: example_fs_def)
  from loadFeatsFromFile_clears [of read_PointFeature example_fs "''none.feat''"
      "[\<lparr>m_coords = (7, 8)\<rparr>]"] n
  have a: "loadFeatsFromFile read_PointFeature example_fs ''none.feat'' [\<lparr>m_coords = (7, 8)\<rparr>] =
     Some (Inl (runtime_error (cant_open_message ''none.feat'')), [])"
    by blast
  from loadFeatsFromFile_clears [of read_PointFeature example_fs "''two.feat''"
      "[\<lparr>m_coords = (7, 8)\<rparr>]"]
  have b: "loadFeatsFromFile read_PointFeature example_fs ''two.feat'' [\<lparr>m_coords = (7, 8)\<rparr>] =
     loadFeatsFromFile read_PointFeature example_fs ''two.feat'' []"
    by blast
  from n a b show ?thesis by blast
qed

end
